theory Spec2Isabelle
  imports Complex_Main "HOL-Library.Monad_Syntax"
begin

section \<open>The sensor configuration header hwmsen_custom.h\<close>

text \<open>
  The source is one C header,
  \<^verbatim>\<open>custom/demo/hal/sensors/sensor/hwmsen_custom.h\<close>, and all it holds is a run of
  object-like macros between an include guard. It is embedded as what it is: the list of
  its \<^verbatim>\<open>#define\<close> lines, in the order of the file, each a name and the one token (or no
  token) of its replacement list. What a macro name means where it is used is given by
  the preprocessor's replacement rule, embedded as \<open>expand\<close> below.
\<close>

subsection \<open>Replacement lists\<close>

text \<open>
  A floating constant keeps what the source wrote: its decimal digits, how many of them
  stand after the point, and its suffix. \<^verbatim>\<open>1572.86f\<close> is \<open>FloatLit 157286 2 SuffixF\<close> and
  \<^verbatim>\<open>0.0016\<close> is \<open>FloatLit 16 4 NoSuffix\<close>.
\<close>

datatype float_suffix = NoSuffix | SuffixF

datatype body =
    NoBody
  | IntLit int
  | FloatLit int nat float_suffix
  | StrLit string
  | Ident string

type_synonym macro_def = "string \<times> body"

subsection \<open>The header\<close>

text \<open>
  \<^verbatim>\<open>
  #ifndef __HWMSEN_CUSTOM_H__
  #define __HWMSEN_CUSTOM_H__

  #define MAX_NUM_SENSORS                 1
  #define MSENSOR_AMI_LIB

  /*  set sensor .mindelay, ms */
  #define MAGNETOMETER_MINDELAY      20000
  #define ORIENTATION_MINDELAY       20000
  #define ACCELEROMETER_MINDELAY     10000
  #define GYROSCOPE_MINDELAY         10000

  #define UNCALI_PRESSURE                         "UNCALI_PRESSURE"
  #define UNCALI_PRESSURE_VENDER                    "Bosch"
  #define UNCALI_PRESSURE_VERSION                   1
  #define UNCALI_PRESSURE_RANGE                     1572.86f
  #define UNCALI_PRESSURE_RESOLUTION                0.0016
  #define UNCALI_PRESSURE_POWER                     0
  #define UNCALI_PRESSURE_MINDELAY                  20000
  #define UNCALI_PRESSURE_FIFO_MAX_COUNT            0
  #define UNCALI_PRESSURE_FIFO_RESERVE_COUNT        0
  #define UNCALI_PRESSURE_MAXDELAY                  1000000
  #define UNCALI_PRESSURE_FLAGS     SENSOR_FLAG_CONTINUOUS_MODE

  #endif
  \<close>
  The list is the header as a translation unit sees it the first time it is included,
  when the guard \<^verbatim>\<open>__HWMSEN_CUSTOM_H__\<close> is not yet defined.
\<close>

definition hwmsen_custom_h :: "macro_def list" where
  "hwmsen_custom_h =
    [ (''__HWMSEN_CUSTOM_H__'', NoBody),
      (''MAX_NUM_SENSORS'', IntLit 1),
      (''MSENSOR_AMI_LIB'', NoBody),
      (''MAGNETOMETER_MINDELAY'', IntLit 20000),
      (''ORIENTATION_MINDELAY'', IntLit 20000),
      (''ACCELEROMETER_MINDELAY'', IntLit 10000),
      (''GYROSCOPE_MINDELAY'', IntLit 10000),
      (''UNCALI_PRESSURE'', StrLit ''UNCALI_PRESSURE''),
      (''UNCALI_PRESSURE_VENDER'', StrLit ''Bosch''),
      (''UNCALI_PRESSURE_VERSION'', IntLit 1),
      (''UNCALI_PRESSURE_RANGE'', FloatLit 157286 2 SuffixF),
      (''UNCALI_PRESSURE_RESOLUTION'', FloatLit 16 4 NoSuffix),
      (''UNCALI_PRESSURE_POWER'', IntLit 0),
      (''UNCALI_PRESSURE_MINDELAY'', IntLit 20000),
      (''UNCALI_PRESSURE_FIFO_MAX_COUNT'', IntLit 0),
      (''UNCALI_PRESSURE_FIFO_RESERVE_COUNT'', IntLit 0),
      (''UNCALI_PRESSURE_MAXDELAY'', IntLit 1000000),
      (''UNCALI_PRESSURE_FLAGS'', Ident ''SENSOR_FLAG_CONTINUOUS_MODE'') ]"

subsection \<open>Macro replacement\<close>

text \<open>
  Where a name is used, the preprocessor replaces it by its replacement list and scans
  the result again; a name that is not a macro stays as the identifier it is, and the
  macro being replaced is not replaced a second time inside its own expansion. The
  last rule is what makes the recursion end: the definition of \<open>x\<close> is taken out of the
  table before the replacement list of \<open>x\<close> is scanned.
\<close>

function expand :: "macro_def list \<Rightarrow> string \<Rightarrow> body" where
  "expand defs x =
     (case map_of defs x of
        None \<Rightarrow> Ident x
      | Some (Ident y) \<Rightarrow> expand (filter (\<lambda>d. fst d \<noteq> x) defs) y
      | Some b \<Rightarrow> b)"
  by pat_completeness auto
termination
proof (relation "measure (\<lambda>(defs, x). length defs)")
  show "wf (measure (\<lambda>(defs, x). length defs))"
    by simp
next
  fix defs :: "macro_def list" and x :: string and b y
  assume "map_of defs x = Some b"
  then have "(x, b) \<in> set defs"
    by (rule map_of_SomeD)
  then have "length (filter (\<lambda>d. fst d \<noteq> x) defs) < length defs"
    by (intro length_filter_less [where x = "(x, b)"]) simp_all
  then show "((filter (\<lambda>d. fst d \<noteq> x) defs, y), (defs, x)) \<in> measure (\<lambda>(defs, x). length defs)"
    by simp
qed

declare expand.simps [simp del]

subsection \<open>Reading a constant of the header\<close>

text \<open>
  What the C compiler sees for a name of the header is its expansion. An integer field
  takes an integer constant; a floating field takes a floating constant or an integer
  constant (\<^verbatim>\<open>UNCALI_PRESSURE_POWER\<close> is written \<^verbatim>\<open>0\<close>), read here as the exact decimal the
  source wrote, before any rounding to \<^verbatim>\<open>float\<close>; a string field takes a string literal.
  A name the header does not define in that shape reads as \<open>None\<close>.
\<close>

definition int_macro :: "string \<Rightarrow> int option" where
  "int_macro x = (case expand hwmsen_custom_h x of IntLit n \<Rightarrow> Some n | _ \<Rightarrow> None)"

definition rat_macro :: "string \<Rightarrow> rat option" where
  "rat_macro x =
     (case expand hwmsen_custom_h x of
        IntLit n \<Rightarrow> Some (of_int n)
      | FloatLit m e s \<Rightarrow> Some (of_int m / 10 ^ e)
      | _ \<Rightarrow> None)"

definition str_macro :: "string \<Rightarrow> string option" where
  "str_macro x = (case expand hwmsen_custom_h x of StrLit s \<Rightarrow> Some s | _ \<Rightarrow> None)"

text \<open>
  \<^verbatim>\<open>UNCALI_PRESSURE_FLAGS\<close> expands to an identifier that the header does not define:
  the enumeration constant \<^verbatim>\<open>SENSOR_FLAG_CONTINUOUS_MODE\<close> of the sensor framework's
  interface. Its value is a parameter here: \<open>ext\<close> gives the constants that are in scope
  where the header is used.
\<close>

definition const_macro :: "(string \<rightharpoonup> int) \<Rightarrow> string \<Rightarrow> int option" where
  "const_macro ext x =
     (case expand hwmsen_custom_h x of
        IntLit n \<Rightarrow> Some n
      | Ident y \<Rightarrow> ext y
      | _ \<Rightarrow> None)"

text \<open>
  A field whose value is defined outside keeps the expression itself: the expansion of
  the name, when the header defines the name at all.
\<close>

definition expr_macro :: "string \<Rightarrow> body option" where
  "expr_macro x =
     (case map_of hwmsen_custom_h x of
        None \<Rightarrow> None
      | Some b \<Rightarrow> Some (expand hwmsen_custom_h x))"

text \<open>The string-valued constants of the header, in the order of the file.\<close>

definition string_constants :: "(string \<times> string) list" where
  "string_constants =
     List.map_filter (\<lambda>(x, b). case b of StrLit s \<Rightarrow> Some (x, s) | _ \<Rightarrow> None) hwmsen_custom_h"

subsection \<open>Sensor descriptors\<close>

text \<open>
  Modelled from the spec: the descriptor record type, which the header fills but does not
  declare (it belongs to the sensor framework's interface, not to this file). The fields
  are those of the specification's data model; \<open>range_val\<close> and \<open>power_val\<close> are its \<open>range\<close> and
  \<open>power\<close>. The \<open>flags\<close> field keeps the expression the header gives, since its value is
  defined outside.
\<close>

record sensor_descriptor =
  name :: string
  vendor :: string
  version :: int
  range_val :: rat
  resolution :: rat
  power_val :: rat
  min_delay :: int
  max_delay :: int
  fifo_max_count :: int
  fifo_reserve_count :: int
  flags :: body

text \<open>
  Modelled from the spec: the descriptor of a sensor type \<open>tag\<close> is the block of constants
  \<open>tag\<close>, \<open>tag_VENDER\<close>, \<open>tag_VERSION\<close>, ... \<open>tag_FLAGS\<close> of the header; there is one only
  when the header defines every one of them, each in the shape of its field.
\<close>

definition descriptor :: "string \<Rightarrow> sensor_descriptor option" where
  "descriptor tag = do {
     n \<leftarrow> str_macro tag;
     v \<leftarrow> str_macro (tag @ ''_VENDER'');
     ver \<leftarrow> int_macro (tag @ ''_VERSION'');
     rng \<leftarrow> rat_macro (tag @ ''_RANGE'');
     res \<leftarrow> rat_macro (tag @ ''_RESOLUTION'');
     pw \<leftarrow> rat_macro (tag @ ''_POWER'');
     mind \<leftarrow> int_macro (tag @ ''_MINDELAY'');
     maxd \<leftarrow> int_macro (tag @ ''_MAXDELAY'');
     fmax \<leftarrow> int_macro (tag @ ''_FIFO_MAX_COUNT'');
     fres \<leftarrow> int_macro (tag @ ''_FIFO_RESERVE_COUNT'');
     fl \<leftarrow> expr_macro (tag @ ''_FLAGS'');
     Some \<lparr> name = n, vendor = v, version = ver, range_val = rng, resolution = res,
            power_val = pw, min_delay = mind, max_delay = maxd, fifo_max_count = fmax,
            fifo_reserve_count = fres, flags = fl \<rparr>
   }"

text \<open>Enumerating the descriptors: every name of the header is tried as a sensor type.\<close>

definition descriptors :: "sensor_descriptor list" where
  "descriptors = List.map_filter descriptor (map fst hwmsen_custom_h)"

section \<open>Evaluating the header\<close>

lemma header_names_distinct: "distinct (map fst hwmsen_custom_h)"
  by (simp add: hwmsen_custom_h_def)

lemma expand_undefined: "map_of defs x = None \<Longrightarrow> expand defs x = Ident x"
  by (subst expand.simps) simp

lemma expand_literal:
  assumes "map_of defs x = Some b" and "\<And>y. b \<noteq> Ident y"
  shows "expand defs x = b"
proof (cases b)
  case (Ident y)
  with assms(2) show ?thesis by blast
qed (use assms(1) in \<open>simp_all add: expand.simps [of defs x]\<close>)

lemma expand_flags:
  "expand hwmsen_custom_h ''UNCALI_PRESSURE_FLAGS'' = Ident ''SENSOR_FLAG_CONTINUOUS_MODE''"
  by (simp add: expand.simps hwmsen_custom_h_def)

lemma expr_macro_values:
  "expr_macro ''UNCALI_PRESSURE_FLAGS'' = Some (Ident ''SENSOR_FLAG_CONTINUOUS_MODE'')"
proof -
  have "map_of hwmsen_custom_h ''UNCALI_PRESSURE_FLAGS'' = Some (Ident ''SENSOR_FLAG_CONTINUOUS_MODE'')"
    by (simp add: hwmsen_custom_h_def)
  then show ?thesis
    by (simp add: expr_macro_def expand_flags)
qed

lemma int_macro_values:
  "int_macro ''MAX_NUM_SENSORS'' = Some 1"
  "int_macro ''MAGNETOMETER_MINDELAY'' = Some 20000"
  "int_macro ''ORIENTATION_MINDELAY'' = Some 20000"
  "int_macro ''ACCELEROMETER_MINDELAY'' = Some 10000"
  "int_macro ''GYROSCOPE_MINDELAY'' = Some 10000"
  "int_macro ''UNCALI_PRESSURE_VERSION'' = Some 1"
  "int_macro ''UNCALI_PRESSURE_MINDELAY'' = Some 20000"
  "int_macro ''UNCALI_PRESSURE_FIFO_MAX_COUNT'' = Some 0"
  "int_macro ''UNCALI_PRESSURE_FIFO_RESERVE_COUNT'' = Some 0"
  "int_macro ''UNCALI_PRESSURE_MAXDELAY'' = Some 1000000"
  by (simp_all add: int_macro_def expand_literal hwmsen_custom_h_def)

lemma rat_macro_values:
  "rat_macro ''UNCALI_PRESSURE_RANGE'' = Some (157286 / 100)"
  "rat_macro ''UNCALI_PRESSURE_RESOLUTION'' = Some (16 / 10000)"
  "rat_macro ''UNCALI_PRESSURE_POWER'' = Some 0"
  by (simp_all add: rat_macro_def expand_literal hwmsen_custom_h_def)

lemma str_macro_values:
  "str_macro ''UNCALI_PRESSURE'' = Some ''UNCALI_PRESSURE''"
  "str_macro ''UNCALI_PRESSURE_VENDER'' = Some ''Bosch''"
  by (simp_all add: str_macro_def expand_literal hwmsen_custom_h_def)

lemma descriptor_uncali_pressure:
  "descriptor ''UNCALI_PRESSURE'' =
     Some \<lparr> name = ''UNCALI_PRESSURE'', vendor = ''Bosch'', version = 1,
            range_val = 157286 / 100, resolution = 16 / 10000, power_val = 0,
            min_delay = 20000, max_delay = 1000000, fifo_max_count = 0,
            fifo_reserve_count = 0, flags = Ident ''SENSOR_FLAG_CONTINUOUS_MODE'' \<rparr>"
  unfolding descriptor_def
  by (simp add: int_macro_values rat_macro_values str_macro_values expr_macro_values)


lemma descriptors_value:
  "descriptors =
     [\<lparr> name = ''UNCALI_PRESSURE'', vendor = ''Bosch'', version = 1,
        range_val = 157286 / 100, resolution = 16 / 10000, power_val = 0,
        min_delay = 20000, max_delay = 1000000, fifo_max_count = 0,
        fifo_reserve_count = 0, flags = Ident ''SENSOR_FLAG_CONTINUOUS_MODE'' \<rparr>]"
  by code_simp

section \<open>The claims\<close>

subsection \<open>C1: the one descriptor\<close>

text \<open>
  Claim C1. The header defines exactly one sensor descriptor, the uncalibrated-pressure
  one: enumerating the descriptors gives one sensor, whose name is \<^verbatim>\<open>"UNCALI_PRESSURE"\<close>,
  vendor \<^verbatim>\<open>"Bosch"\<close>, minimum delay 20000, maximum delay 1000000 and FIFO capacity 0.
\<close>

theorem uncali_pressure_only_descriptor:
  "length descriptors = 1 \<and>
   map (\<lambda>d. (name d, vendor d, min_delay d, max_delay d, fifo_max_count d)) descriptors =
     [(''UNCALI_PRESSURE'', ''Bosch'', 20000, 1000000, 0)]"
  by (simp add: descriptors_value)

subsection \<open>C2: the sensor-count limit\<close>

text \<open>
  Claim C2. \<^verbatim>\<open>MAX_NUM_SENSORS\<close> is 1; so it is at least 1 and at least the number of
  descriptors of the header, which is 1.
\<close>

theorem max_num_sensors_bound:
  "int_macro ''MAX_NUM_SENSORS'' = Some 1 \<and>
   (\<exists>m. int_macro ''MAX_NUM_SENSORS'' = Some m \<and> 1 \<le> m \<and> int (length descriptors) \<le> m) \<and>
   length descriptors = 1"
proof -
  have n: "length descriptors = 1"
    by (simp add: descriptors_value)
  have m: "int_macro ''MAX_NUM_SENSORS'' = Some 1"
    by (rule int_macro_values)
  from n m show ?thesis by simp
qed

subsection \<open>C3: the per-type minimum delays\<close>

text \<open>
  Claim C3. The four per-type minimum-delay constants are positive integers with the
  values \<^verbatim>\<open>MAGNETOMETER_MINDELAY\<close> = 20000, \<^verbatim>\<open>ORIENTATION_MINDELAY\<close> = 20000,
  \<^verbatim>\<open>ACCELEROMETER_MINDELAY\<close> = 10000 and \<^verbatim>\<open>GYROSCOPE_MINDELAY\<close> = 10000. The numbers are
  what the header fixes; the unit they are read in (microseconds, the unit of a
  descriptor's minimum delay) is not part of its tokens.
\<close>

theorem per_type_mindelay_values:
  "\<exists>mag ori acc gyr.
     int_macro ''MAGNETOMETER_MINDELAY'' = Some mag \<and> mag = 20000 \<and> 0 < mag \<and>
     int_macro ''ORIENTATION_MINDELAY'' = Some ori \<and> ori = 20000 \<and> 0 < ori \<and>
     int_macro ''ACCELEROMETER_MINDELAY'' = Some acc \<and> acc = 10000 \<and> 0 < acc \<and>
     int_macro ''GYROSCOPE_MINDELAY'' = Some gyr \<and> gyr = 10000 \<and> 0 < gyr"
  by (simp add: int_macro_values)

subsection \<open>C4: minimum delay below maximum delay\<close>

text \<open>
  Claim C4. For the uncalibrated-pressure descriptor the minimum delay does not exceed
  the maximum delay: \<^verbatim>\<open>UNCALI_PRESSURE_MINDELAY\<close> = 20000 \<open>\<le>\<close>
  \<^verbatim>\<open>UNCALI_PRESSURE_MAXDELAY\<close> = 1000000, as constants and as fields of the descriptor.
\<close>

theorem uncali_pressure_delay_order:
  "(\<exists>lo hi. int_macro ''UNCALI_PRESSURE_MINDELAY'' = Some lo \<and>
            int_macro ''UNCALI_PRESSURE_MAXDELAY'' = Some hi \<and>
            lo = 20000 \<and> hi = 1000000 \<and> lo \<le> hi) \<and>
   (\<exists>d. descriptor ''UNCALI_PRESSURE'' = Some d \<and> min_delay d \<le> max_delay d)"
  by (simp add: int_macro_values descriptor_uncali_pressure)

subsection \<open>C5: reserved FIFO slots within the FIFO capacity\<close>

text \<open>
  Claim C5. For the uncalibrated-pressure descriptor the reserved FIFO count does not
  exceed the FIFO capacity: \<^verbatim>\<open>UNCALI_PRESSURE_FIFO_RESERVE_COUNT\<close> = 0 \<open>\<le>\<close>
  \<^verbatim>\<open>UNCALI_PRESSURE_FIFO_MAX_COUNT\<close> = 0, as constants and as fields of the descriptor.
\<close>

theorem uncali_pressure_fifo_order:
  "(\<exists>r c. int_macro ''UNCALI_PRESSURE_FIFO_RESERVE_COUNT'' = Some r \<and>
          int_macro ''UNCALI_PRESSURE_FIFO_MAX_COUNT'' = Some c \<and>
          r = 0 \<and> c = 0 \<and> r \<le> c) \<and>
   (\<exists>d. descriptor ''UNCALI_PRESSURE'' = Some d \<and> fifo_reserve_count d \<le> fifo_max_count d)"
  by (simp add: int_macro_values descriptor_uncali_pressure)

subsection \<open>C6: the remaining numeric fields\<close>

text \<open>
  Claim C6. \<^verbatim>\<open>UNCALI_PRESSURE_VERSION\<close> = 1, \<^verbatim>\<open>UNCALI_PRESSURE_RANGE\<close> = 1572.86,
  \<^verbatim>\<open>UNCALI_PRESSURE_RESOLUTION\<close> = 0.0016, \<^verbatim>\<open>UNCALI_PRESSURE_POWER\<close> = 0 and
  \<^verbatim>\<open>UNCALI_PRESSURE_MAXDELAY\<close> = 1000000, with range, resolution and power read as exact
  rationals.
\<close>

theorem uncali_pressure_numeric_fields:
  "int_macro ''UNCALI_PRESSURE_VERSION'' = Some 1 \<and>
   rat_macro ''UNCALI_PRESSURE_RANGE'' = Some 1572.86 \<and>
   rat_macro ''UNCALI_PRESSURE_RESOLUTION'' = Some 0.0016 \<and>
   rat_macro ''UNCALI_PRESSURE_POWER'' = Some 0 \<and>
   int_macro ''UNCALI_PRESSURE_MAXDELAY'' = Some 1000000"
  by (simp add: int_macro_values rat_macro_values)

subsection \<open>C7: the string constants\<close>

text \<open>
  Claim C7. Every string-valued constant of the header is non-empty: there are two, the
  name \<^verbatim>\<open>"UNCALI_PRESSURE"\<close> and the vendor \<^verbatim>\<open>"Bosch"\<close>, and none of them has length 0.
\<close>

theorem string_constants_nonempty:
  "string_constants =
     [(''UNCALI_PRESSURE'', ''UNCALI_PRESSURE''), (''UNCALI_PRESSURE_VENDER'', ''Bosch'')] \<and>
   str_macro ''UNCALI_PRESSURE'' = Some ''UNCALI_PRESSURE'' \<and>
   str_macro ''UNCALI_PRESSURE_VENDER'' = Some ''Bosch'' \<and>
   filter (\<lambda>(x, s). length s = 0) string_constants = []"
proof -
  have sc: "string_constants =
     [(''UNCALI_PRESSURE'', ''UNCALI_PRESSURE''), (''UNCALI_PRESSURE_VENDER'', ''Bosch'')]"
    by (simp add: string_constants_def hwmsen_custom_h_def)
  show ?thesis
    by (simp add: sc str_macro_values)
qed

subsection \<open>C8: the capability flag\<close>

text \<open>
  Claim C8. \<^verbatim>\<open>UNCALI_PRESSURE_FLAGS\<close> is the externally defined continuous-mode flag:
  whatever the constants in scope give for \<^verbatim>\<open>SENSOR_FLAG_CONTINUOUS_MODE\<close>, that is the
  value of \<^verbatim>\<open>UNCALI_PRESSURE_FLAGS\<close>; the header itself fixes no value for it, since the
  macro expands to that identifier and the header does not define the identifier.
\<close>

theorem uncali_pressure_flags_external:
  "const_macro ext ''UNCALI_PRESSURE_FLAGS'' = ext ''SENSOR_FLAG_CONTINUOUS_MODE'' \<and>
   expand hwmsen_custom_h ''UNCALI_PRESSURE_FLAGS'' = Ident ''SENSOR_FLAG_CONTINUOUS_MODE'' \<and>
   map_of hwmsen_custom_h ''SENSOR_FLAG_CONTINUOUS_MODE'' = None"
proof (intro conjI)
  show "const_macro ext ''UNCALI_PRESSURE_FLAGS'' = ext ''SENSOR_FLAG_CONTINUOUS_MODE''"
    by (simp add: const_macro_def expand_flags)
  show "expand hwmsen_custom_h ''UNCALI_PRESSURE_FLAGS'' = Ident ''SENSOR_FLAG_CONTINUOUS_MODE''"
    by (rule expand_flags)
  show "map_of hwmsen_custom_h ''SENSOR_FLAG_CONTINUOUS_MODE'' = None"
    by (simp add: hwmsen_custom_h_def)
qed

subsection \<open>C9: relations between the minimum delays\<close>

text \<open>
  Claim C9. \<^verbatim>\<open>MAGNETOMETER_MINDELAY\<close> = \<^verbatim>\<open>ORIENTATION_MINDELAY\<close> =
  \<^verbatim>\<open>UNCALI_PRESSURE_MINDELAY\<close>, \<^verbatim>\<open>ACCELEROMETER_MINDELAY\<close> = \<^verbatim>\<open>GYROSCOPE_MINDELAY\<close>, and
  \<^verbatim>\<open>MAGNETOMETER_MINDELAY\<close> is twice \<^verbatim>\<open>ACCELEROMETER_MINDELAY\<close>.
\<close>

theorem mindelay_relations:
  "\<exists>mag ori unc acc gyr.
     int_macro ''MAGNETOMETER_MINDELAY'' = Some mag \<and>
     int_macro ''ORIENTATION_MINDELAY'' = Some ori \<and>
     int_macro ''UNCALI_PRESSURE_MINDELAY'' = Some unc \<and>
     int_macro ''ACCELEROMETER_MINDELAY'' = Some acc \<and>
     int_macro ''GYROSCOPE_MINDELAY'' = Some gyr \<and>
     mag = ori \<and> ori = unc \<and> acc = gyr \<and> mag = 2 * acc"
  by (simp add: int_macro_values)

subsection \<open>C10: resolution and range\<close>

text \<open>
  Claim C10. The resolution of the uncalibrated-pressure sensor is strictly positive and
  strictly below its range: 0 < 0.0016 < 1572.86, as exact rationals.
\<close>

theorem uncali_pressure_resolution_below_range:
  "\<exists>res rng.
     rat_macro ''UNCALI_PRESSURE_RESOLUTION'' = Some res \<and>
     rat_macro ''UNCALI_PRESSURE_RANGE'' = Some rng \<and>
     res = 0.0016 \<and> rng = 1572.86 \<and> 0 < res \<and> res < rng"
proof -
  have "rat_macro ''UNCALI_PRESSURE_RESOLUTION'' = Some 0.0016"
    and "rat_macro ''UNCALI_PRESSURE_RANGE'' = Some 1572.86"
    by (simp_all add: rat_macro_values)
  moreover have "(0::rat) < 0.0016" and "(0.0016::rat) < 1572.86"
    by simp_all
  ultimately show ?thesis
    by blast
qed

end
